theory Spec2Isabelle
  imports Complex_Main
begin

section \<open>The order-book display strategy (dev_1_get_order_book.py)\<close>

text \<open>
  A shallow embedding of \<^verbatim>\<open>GetOrderBookStrategy\<close>. The strategy object is a record of
  the attributes that \<^verbatim>\<open>__init__\<close> assigns. The connector \<^verbatim>\<open>self._exchange\<close> is an
  object owned by the host and changed by it between calls, so its current state is handed
  to every operation instead of being stored in the record. What an operation does beyond
  changing the record (log lines, user notices, calls on the display surface, creating and
  cancelling the task) is returned as a list of events, in the order of the calls.
\<close>

subsection \<open>Errors and effects\<close>

datatype py_error =
    ValueError string
  | KeyError string
  | AttributeError string
  | OtherError string

datatype event =
    LogWarning string
  | LogError string
  | Notify string
  | EnsureFuture nat
  | CancelTask nat
  | StopLiveUpdate
  | SetLiveUpdates bool
  | ClsDisplayDelay string rat

subsection \<open>Collaborators\<close>

text \<open>
  One row of an order-book snapshot frame: the columns \<^verbatim>\<open>price\<close>, \<^verbatim>\<open>amount\<close> and
  \<^verbatim>\<open>update_id\<close>. The code never computes with the cell values, so their type is a
  parameter.
\<close>

record 'v order_book_row =
  price :: 'v
  amount :: 'v
  update_id :: 'v

text \<open>\<^verbatim>\<open>order_book.snapshot\<close> is the pair (bids frame, asks frame), rows in index order.\<close>

type_synonym 'v snapshot = "'v order_book_row list \<times> 'v order_book_row list"

record 'v exchange =
  ex_name :: string
  ex_ready :: bool
  order_books :: "string \<rightharpoonup> 'v snapshot"
  get_balance :: "string \<Rightarrow> 'v"

record 'v market_trading_pair_tuple =
  market :: "'v exchange"
  mi_trading_pair :: string
  base_asset :: string
  quote_asset :: string

subsection \<open>The strategy object\<close>

record 'v strategy =
  market_info :: "(string \<times> 'v market_trading_pair_tuple) list"
  trading_pair :: string
  lines :: int
  ready :: bool
  get_order_book_task :: "nat option"

text \<open>
  \<^verbatim>\<open>__init__\<close> stores its arguments (the dictionary \<^verbatim>\<open>market_info\<close> as the list of its
  items), registers the connector with the base class, and leaves the strategy not ready
  and without a task.
\<close>

definition init ::
  "(string \<times> 'v market_trading_pair_tuple) list \<Rightarrow> string \<Rightarrow> int \<Rightarrow> 'v strategy" where
  "init mi tp n =
     \<lparr>market_info = mi, trading_pair = tp, lines = n,
      ready = False, get_order_book_task = None\<rparr>"

subsection \<open>stop\<close>

text \<open>
  \<^verbatim>\<open>
  if self._get_order_book_task is not None:
      self._get_order_book_task.cancel()
      self._get_order_book_task = None
  \<close>
  The clock argument is not read. \<^verbatim>\<open>cancel\<close> on the task handle requests the
  cancellation and returns.
\<close>

definition stop :: "'v strategy \<Rightarrow> event list \<times> 'v strategy" where
  "stop s =
     (case get_order_book_task s of
        None \<Rightarrow> ([], s)
      | Some h \<Rightarrow> ([CancelTask h], s\<lparr>get_order_book_task := None\<rparr>))"

subsection \<open>tick\<close>

text \<open>
  \<^verbatim>\<open>str.upper\<close> on the connector's name, for the ASCII letters that connector names
  are made of.
\<close>

definition upper_char :: "char \<Rightarrow> char" where
  "upper_char c =
     (case map_of (zip ''abcdefghijklmnopqrstuvwxyz'' ''ABCDEFGHIJKLMNOPQRSTUVWXYZ'') c of
        None \<Rightarrow> c
      | Some u \<Rightarrow> u)"

definition upper :: "string \<Rightarrow> string" where
  "upper = map upper_char"

text \<open>
  What \<^verbatim>\<open>safe_ensure_future(self.show_order_book())\<close> does when it is called:
  it returns the handle of the new task, or it raises.
\<close>

datatype spawn_result = Spawned nat | SpawnRaised py_error

text \<open>
  \<^verbatim>\<open>
  if self._ready:
      return
  if not self._ready and not self._exchange.ready:
      self.logger().warning(f"{self._exchange.name} is not ready. Please wait...")
  else:
      self.notify_hb_app(f"{self._exchange.name.upper()} Connector is ready!")
      try:
          if self._get_order_book_task is None:
              self._get_order_book_task = safe_ensure_future(self.show_order_book())
              self._ready = True
      except Exception:
          self.logger().error("Error starting live order book. ", exc_info=True)
          self._ready = False
  return
  \<close>
  The timestamp is not read.
\<close>

definition tick ::
  "spawn_result \<Rightarrow> 'v exchange \<Rightarrow> rat \<Rightarrow> 'v strategy \<Rightarrow> event list \<times> 'v strategy" where
  "tick spawn exch timestamp s =
     (if ready s then ([], s)
      else if \<not> ready s \<and> \<not> ex_ready exch then
        ([LogWarning (ex_name exch @ '' is not ready. Please wait...'')], s)
      else
        (case get_order_book_task s of
           None \<Rightarrow>
             (case spawn of
                Spawned h \<Rightarrow>
                  ([Notify (upper (ex_name exch) @ '' Connector is ready!''), EnsureFuture h],
                   s\<lparr>get_order_book_task := Some h, ready := True\<rparr>)
              | SpawnRaised e \<Rightarrow>
                  ([Notify (upper (ex_name exch) @ '' Connector is ready!''),
                    LogError ''Error starting live order book. ''],
                   s\<lparr>ready := False\<rparr>))
         | Some h \<Rightarrow>
             ([Notify (upper (ex_name exch) @ '' Connector is ready!'')], s)))"

text \<open>A run of the host clock: one input per tick, the events of all ticks in order.\<close>

record 'v tick_input =
  timestamp :: rat
  connector :: "'v exchange"
  spawn :: spawn_result

fun run_ticks :: "'v strategy \<Rightarrow> 'v tick_input list \<Rightarrow> event list \<times> 'v strategy" where
  "run_ticks s [] = ([], s)"
| "run_ticks s (i # is) =
     (let (evs, s') = tick (spawn i) (connector i) (timestamp i) s;
          (evs', s'') = run_ticks s' is
      in (evs @ evs', s''))"

text \<open>The handles of the tasks created, read off the events.\<close>

fun created_tasks :: "event list \<Rightarrow> nat list" where
  "created_tasks [] = []"
| "created_tasks (EnsureFuture h # evs) = h # created_tasks evs"
| "created_tasks (_ # evs) = created_tasks evs"

text \<open>
  The host calls \<^verbatim>\<open>tick\<close> and \<^verbatim>\<open>stop\<close> in any order (the clock handed to
  \<^verbatim>\<open>stop\<close> is not read).
\<close>

datatype 'v call = Tick "'v tick_input" | Stop

fun run_calls :: "'v strategy \<Rightarrow> 'v call list \<Rightarrow> event list \<times> 'v strategy" where
  "run_calls s [] = ([], s)"
| "run_calls s (Tick i # cs) =
     (let (evs, s') = tick (spawn i) (connector i) (timestamp i) s;
          (evs', s'') = run_calls s' cs
      in (evs @ evs', s''))"
| "run_calls s (Stop # cs) =
     (let (evs, s') = stop s;
          (evs', s'') = run_calls s' cs
      in (evs @ evs', s''))"

subsection \<open>get_order_book\<close>

definition newline :: char where
  "newline = CHR 0x0A"

text \<open>\<^verbatim>\<open>text.split("\n")\<close> and \<^verbatim>\<open>"\n".join(lines)\<close>.\<close>

fun split_nl :: "string \<Rightarrow> string list" where
  "split_nl [] = [[]]"
| "split_nl (c # cs) =
     (if c = newline then [] # split_nl cs
      else (case split_nl cs of [] \<Rightarrow> [[c]] | l # ls \<Rightarrow> (c # l) # ls))"

fun join_nl :: "string list \<Rightarrow> string" where
  "join_nl [] = []"
| "join_nl [l] = l"
| "join_nl (l # m # ls) = l @ [newline] @ join_nl (m # ls)"

text \<open>
  \<^verbatim>\<open>DataFrame.head(n)\<close> is \<^verbatim>\<open>iloc[:n]\<close>: the first \<open>n\<close> rows, and for a negative
  \<open>n\<close> all rows but the last \<open>-n\<close>.
\<close>

definition head :: "int \<Rightarrow> 'a list \<Rightarrow> 'a list" where
  "head n xs = (if 0 \<le> n then take (nat n) xs else take (length xs - nat (- n)) xs)"

text \<open>\<^verbatim>\<open>frame[['price', 'amount']]\<close>: the two columns of every row.\<close>

definition price_amount :: "'v order_book_row list \<Rightarrow> ('v \<times> 'v) list" where
  "price_amount frame = map (\<lambda>r. (price r, amount r)) frame"

text \<open>
  The frame handed to \<^verbatim>\<open>to_string\<close>: column labels and rows of cells, \<open>None\<close> for a
  missing cell (NaN).
\<close>

record 'v data_frame =
  columns :: "string list"
  rows :: "'v option list list"

text \<open>
  \<^verbatim>\<open>pd.concat([bids, asks], axis=1)\<close> puts the rows with the same index label side by
  side and fills the side that has no such row with missing cells. Both operands are heads
  of snapshot frames, whose labels are the row positions \<open>0, 1, 2, ...\<close>.
\<close>

definition cells_at :: "('v \<times> 'v) list \<Rightarrow> nat \<Rightarrow> 'v option list" where
  "cells_at side i =
     (if i < length side then [Some (fst (side ! i)), Some (snd (side ! i))] else [None, None])"

definition concat_axis1 :: "('v \<times> 'v) list \<Rightarrow> ('v \<times> 'v) list \<Rightarrow> 'v data_frame" where
  "concat_axis1 bids asks =
     \<lparr>columns = [''bid_price'', ''bid_volume'', ''ask_price'', ''ask_volume''],
      rows = map (\<lambda>i. cells_at bids i @ cells_at asks i) [0..<max (length bids) (length asks)]\<rparr>"

text \<open>
  \<^verbatim>\<open>
  order_book = self._exchange.order_books[self._trading_pair]
  bids = order_book.snapshot[0][['price', 'amount']].head(self._lines)
  bids.rename(columns={'price': 'bid_price', 'amount': 'bid_volume'}, inplace=True)
  asks = order_book.snapshot[1][['price', 'amount']].head(self._lines)
  asks.rename(columns={'price': 'ask_price', 'amount': 'ask_volume'}, inplace=True)
  joined_df = pd.concat([bids, asks], axis=1)
  text_lines = ["    " + line for line in joined_df.to_string(index=False).split("\n")]
  header = f"  market: {self._exchange.name} {self._trading_pair}\n"
  return header + "\n".join(text_lines)
  \<close>
  The subscript raises \<^verbatim>\<open>KeyError\<close> for a pair that is not in the mapping. The text
  that pandas' \<^verbatim>\<open>to_string(index=False)\<close> makes of a frame is the parameter
  \<open>to_string\<close>.
\<close>

definition get_order_book ::
  "('v data_frame \<Rightarrow> string) \<Rightarrow> 'v exchange \<Rightarrow> 'v strategy \<Rightarrow> py_error + string" where
  "get_order_book to_string exch s =
     (case order_books exch (trading_pair s) of
        None \<Rightarrow> Inl (KeyError (trading_pair s))
      | Some order_book \<Rightarrow>
          (let bids = head (lines s) (price_amount (fst order_book));
               asks = head (lines s) (price_amount (snd order_book));
               joined_df = concat_axis1 bids asks;
               text_lines = map (\<lambda>line. ''    '' @ line) (split_nl (to_string joined_df));
               header = ''  market: '' @ ex_name exch @ '' '' @ trading_pair s @ [newline]
           in Inr (header @ join_nl text_lines)))"

subsection \<open>show_order_book\<close>

text \<open>
  The task runs until it reaches an \<^verbatim>\<open>await\<close>; what it finds when the scheduler lets
  it go on is the environment's choice. A resumption tells what the shared flag
  \<^verbatim>\<open>main_app.app.live_updates\<close> is when the task finds it (\<open>False\<close> when somebody cleared
  it in the meantime) and the connector's state by then; or the task is cancelled at the
  \<^verbatim>\<open>await\<close>. The schedule is the list of resumptions granted so far: a task whose
  schedule is used up is still suspended.
\<close>

datatype 'v resumption = Resume bool "'v exchange" | Cancel

datatype outcome = Returned | Raised py_error | Cancelled | Suspended

text \<open>
  \<^verbatim>\<open>
  while main_app.app.live_updates:
      await main_app.cls_display_delay(
          self.get_order_book() + "\n\n Press escape key to stop update.", 0.5)
  self.notify_hb_app("Stopped live orderbook display update.")
  \<close>
\<close>

definition paced_display :: "string \<Rightarrow> event" where
  "paced_display text =
     ClsDisplayDelay (text @ [newline, newline] @ '' Press escape key to stop update.'') (1 / 2)"

fun display_loop ::
  "('v data_frame \<Rightarrow> string) \<Rightarrow> 'v strategy \<Rightarrow> bool \<Rightarrow> 'v exchange \<Rightarrow> 'v resumption list
     \<Rightarrow> event list \<times> outcome" where
  "display_loop to_string s live_updates exch sched =
     (if \<not> live_updates then ([Notify ''Stopped live orderbook display update.''], Returned)
      else
        (case get_order_book to_string exch s of
           Inl e \<Rightarrow> ([], Raised e)
         | Inr text \<Rightarrow>
             (case sched of
                [] \<Rightarrow> ([paced_display text], Suspended)
              | Cancel # rest \<Rightarrow> ([paced_display text], Cancelled)
              | Resume live_updates' exch' # rest \<Rightarrow>
                  (let (evs, out) = display_loop to_string s live_updates' exch' rest
                   in (paced_display text # evs, out)))))"

text \<open>
  \<^verbatim>\<open>
  if self._trading_pair not in self._exchange.order_books:
      self.logger().error(f"Invalid market {self._trading_pair} on {self._exchange.name} connector.")
      raise ValueError(f"Invalid market {self._trading_pair} on {self._exchange.name} connector.")
  await main_app.stop_live_update()
  main_app.app.live_updates = True
  while ...
  \<close>
  Getting hold of the application object comes first and is no operation on the display.
  The first resumption of the schedule is the one from the \<^verbatim>\<open>await\<close> of
  \<^verbatim>\<open>stop_live_update\<close>; the flag found there is overwritten with \<open>True\<close>. Every
  further resumption is one from a paced display.
\<close>

definition show_order_book ::
  "('v data_frame \<Rightarrow> string) \<Rightarrow> 'v strategy \<Rightarrow> 'v exchange \<Rightarrow> 'v resumption list
     \<Rightarrow> event list \<times> outcome" where
  "show_order_book to_string s exch sched =
     (if order_books exch (trading_pair s) = None then
        ([LogError (''Invalid market '' @ trading_pair s @ '' on '' @ ex_name exch @ '' connector.'')],
         Raised (ValueError
           (''Invalid market '' @ trading_pair s @ '' on '' @ ex_name exch @ '' connector.'')))
      else
        (case sched of
           [] \<Rightarrow> ([StopLiveUpdate], Suspended)
         | Cancel # rest \<Rightarrow> ([StopLiveUpdate], Cancelled)
         | Resume live_updates exch' # rest \<Rightarrow>
             (let (evs, out) = display_loop to_string s True exch' rest
              in (StopLiveUpdate # SetLiveUpdates True # evs, out))))"

text \<open>The events that are operations on the display surface.\<close>

fun display_call :: "event \<Rightarrow> bool" where
  "display_call StopLiveUpdate = True"
| "display_call (SetLiveUpdates b) = True"
| "display_call (ClsDisplayDelay text delay) = True"
| "display_call _ = False"

subsection \<open>format_status\<close>

text \<open>
  \<^verbatim>\<open>
  if not self._ready:
      return "Exchange connector(s) are not ready."
  lines = []
  for market_info in self._market_infos.values():
      lines.extend(["", "  Assets:"] + ["    " + str(self._asset) + "    " +
                                        str(market_info.market.get_balance(self._asset))])
  return "\n".join(lines)
  \<close>
  The method reads the attributes \<^verbatim>\<open>_market_infos\<close> and \<^verbatim>\<open>_asset\<close>. No statement of
  the class assigns either of them (\<^verbatim>\<open>__init__\<close> assigns \<^verbatim>\<open>_market_info\<close>), so
  whether the object has them is not decided by this class. The model takes what they are
  bound to as a parameter, \<open>None\<close> for an attribute that the object does not have, whose
  read raises \<^verbatim>\<open>AttributeError\<close>. \<open>str_of\<close> is \<^verbatim>\<open>str\<close> on a balance.
\<close>

record 'v other_attributes =
  attr_market_infos :: "(string \<times> 'v market_trading_pair_tuple) list option"
  attr_asset :: "string option"

fun status_lines ::
  "('v \<Rightarrow> string) \<Rightarrow> string option \<Rightarrow> 'v market_trading_pair_tuple list
     \<Rightarrow> py_error + string list" where
  "status_lines str_of asset [] = Inr []"
| "status_lines str_of asset (mi # mis) =
     (case asset of
        None \<Rightarrow> Inl (AttributeError ''_asset'')
      | Some a \<Rightarrow>
          (case status_lines str_of asset mis of
             Inl e \<Rightarrow> Inl e
           | Inr ls \<Rightarrow>
               Inr ([[], ''  Assets:'',
                     ''    '' @ a @ ''    '' @ str_of (get_balance (market mi) a)] @ ls)))"

definition format_status ::
  "('v \<Rightarrow> string) \<Rightarrow> 'v other_attributes \<Rightarrow> 'v strategy \<Rightarrow> py_error + string" where
  "format_status str_of attrs s =
     (if \<not> ready s then Inr ''Exchange connector(s) are not ready.''
      else
        (case attr_market_infos attrs of
           None \<Rightarrow> Inl (AttributeError ''_market_infos'')
         | Some infos \<Rightarrow>
             (case status_lines str_of (attr_asset attrs) (map snd infos) of
                Inl e \<Rightarrow> Inl e
              | Inr ls \<Rightarrow> Inr (join_nl ls))))"

text \<open>The object as \<^verbatim>\<open>__init__\<close> leaves it: neither attribute is bound.\<close>

definition attributes_after_init :: "'v other_attributes" where
  "attributes_after_init = \<lparr>attr_market_infos = None, attr_asset = None\<rparr>"

subsection \<open>Sample values\<close>

definition sample_exchange :: "bool \<Rightarrow> (string \<rightharpoonup> int snapshot) \<Rightarrow> int exchange" where
  "sample_exchange r books =
     \<lparr>ex_name = ''binance'', ex_ready = r, order_books = books, get_balance = (\<lambda>a. 0)\<rparr>"

definition sample_tick :: "bool \<Rightarrow> spawn_result \<Rightarrow> int tick_input" where
  "sample_tick r sp = \<lparr>timestamp = 0, connector = sample_exchange r Map.empty, spawn = sp\<rparr>"

definition level :: "'v \<Rightarrow> 'v \<Rightarrow> 'v \<Rightarrow> 'v order_book_row" where
  "level p a u = \<lparr>price = p, amount = a, update_id = u\<rparr>"

section \<open>Properties\<close>

subsection \<open>Facts about tick, stop and runs of them\<close>

lemma tick_when_ready: "ready s \<Longrightarrow> tick sp exch ts s = ([], s)"
  by (simp add: tick_def)

lemma tick_connector_not_ready:
  "\<not> ex_ready exch \<Longrightarrow>
   tick sp exch ts s =
     (if ready s then [] else [LogWarning (ex_name exch @ '' is not ready. Please wait...'')], s)"
  by (simp add: tick_def)

lemma run_ticks_append:
  "run_ticks s (xs @ ys) =
     (fst (run_ticks s xs) @ fst (run_ticks (snd (run_ticks s xs)) ys),
      snd (run_ticks (snd (run_ticks s xs)) ys))"
  by (induction xs arbitrary: s) (simp_all add: split_beta Let_def)

lemma created_tasks_append: "created_tasks (xs @ ys) = created_tasks xs @ created_tasks ys"
  by (induction xs rule: created_tasks.induct) simp_all

lemma run_ticks_when_ready: "ready s \<Longrightarrow> run_ticks s ins = ([], s)"
  by (induction ins) (simp_all add: tick_when_ready)

lemma run_ticks_connector_not_ready:
  "\<forall>i\<in>set ins. \<not> ex_ready (connector i) \<Longrightarrow>
   run_ticks s ins =
     (if ready s then []
      else map (\<lambda>i. LogWarning (ex_name (connector i) @ '' is not ready. Please wait...'')) ins, s)"
  by (induction ins) (simp_all add: tick_connector_not_ready)

lemma created_tasks_warnings: "created_tasks (map (\<lambda>i. LogWarning (f i)) ins) = []"
  by (induction ins) simp_all

text \<open>
  A strategy that is not ready has a budget of one task, a ready one of none; no call
  creates more tasks than it takes from the budget.
\<close>

lemma tick_budget:
  "length (created_tasks (fst (tick sp exch ts s))) + (if ready (snd (tick sp exch ts s)) then 0 else 1)
     \<le> (if ready s then 0 else 1)"
  by (simp add: tick_def split: option.splits spawn_result.splits)

lemma stop_budget:
  "created_tasks (fst (stop s)) = [] \<and> ready (snd (stop s)) = ready s"
  by (simp add: stop_def split: option.splits)

lemma run_calls_budget:
  "length (created_tasks (fst (run_calls s cs))) \<le> (if ready s then 0 else 1)"
proof (induction cs arbitrary: s)
  case Nil
  then show ?case by simp
next
  case (Cons c cs)
  show ?case
  proof (cases c)
    case (Tick i)
    let ?t = "tick (spawn i) (connector i) (timestamp i) s"
    have "length (created_tasks (fst ?t)) + length (created_tasks (fst (run_calls (snd ?t) cs)))
        \<le> (if ready s then 0 else 1)"
      using tick_budget [of "spawn i" "connector i" "timestamp i" s] Cons.IH [of "snd ?t"]
      by (simp split: if_splits)
    with Tick show ?thesis
      by (simp add: split_beta created_tasks_append)
  next
    case Stop
    with Cons.IH [of "snd (stop s)"] stop_budget [of s] show ?thesis
      by (simp add: split_beta created_tasks_append)
  qed
qed

text \<open>
  A task handle is registered only in ready states: this holds of the state that
  \<^verbatim>\<open>__init__\<close> builds and no call changes it. So a reachable state that is not ready has
  no task.
\<close>

lemma tick_task_only_when_ready:
  "ready s \<or> get_order_book_task s = None \<Longrightarrow>
   ready (snd (tick sp exch ts s)) \<or> get_order_book_task (snd (tick sp exch ts s)) = None"
  by (auto simp: tick_def split: option.splits spawn_result.splits)

lemma stop_task_only_when_ready:
  "ready (snd (stop s)) \<or> get_order_book_task (snd (stop s)) = None"
  by (simp add: stop_def split: option.splits)

lemma run_calls_task_only_when_ready:
  "ready s \<or> get_order_book_task s = None \<Longrightarrow>
   ready (snd (run_calls s cs)) \<or> get_order_book_task (snd (run_calls s cs)) = None"
proof (induction cs arbitrary: s)
  case Nil
  then show ?case by simp
next
  case (Cons c cs)
  show ?case
  proof (cases c)
    case (Tick i)
    with Cons.IH [OF tick_task_only_when_ready [OF Cons.prems, of "spawn i" "connector i" "timestamp i"]]
    show ?thesis by (simp add: split_beta)
  next
    case Stop
    with Cons.IH [OF stop_task_only_when_ready [of s]] show ?thesis
      by (simp add: split_beta)
  qed
qed

lemma init_task_only_when_ready:
  "get_order_book_task (snd (run_calls (init mi tp n) cs)) \<noteq> None \<Longrightarrow>
   ready (snd (run_calls (init mi tp n) cs))"
  using run_calls_task_only_when_ready [of "init mi tp n" cs] by (auto simp: init_def)

lemma run_calls_only_ticks: "run_calls s (map Tick ins) = run_ticks s ins"
  by (induction ins arbitrary: s) (simp_all add: split_beta)

lemma run_calls_when_stopped:
  "ready s \<Longrightarrow> get_order_book_task s = None \<Longrightarrow> run_calls s cs = ([], s)"
  by (induction s cs rule: run_calls.induct) (simp_all add: tick_when_ready stop_def)

subsection \<open>The readiness gate\<close>

lemma tick_without_launch:
  "\<not> ready s \<Longrightarrow> get_order_book_task s = None \<Longrightarrow>
   \<not> ex_ready exch \<or> (\<exists>e. sp = SpawnRaised e) \<Longrightarrow>
   snd (tick sp exch ts s) = s \<and> created_tasks (fst (tick sp exch ts s)) = []"
  by (auto simp: tick_def)

lemma run_ticks_without_launch:
  "\<not> ready s \<Longrightarrow> get_order_book_task s = None \<Longrightarrow>
   \<forall>j\<in>set pre. \<not> ex_ready (connector j) \<or> (\<exists>e. spawn j = SpawnRaised e) \<Longrightarrow>
   snd (run_ticks s pre) = s \<and> created_tasks (fst (run_ticks s pre)) = []"
proof (induction pre)
  case Nil
  then show ?case by simp
next
  case (Cons j pre)
  then have "snd (tick (spawn j) (connector j) (timestamp j) s) = s \<and>
      created_tasks (fst (tick (spawn j) (connector j) (timestamp j) s)) = []"
    using tick_without_launch [of s "connector j" "spawn j" "timestamp j"] by simp
  with Cons show ?case
    by (simp add: split_beta created_tasks_append)
qed

text \<open>
  C1, amended: take a strategy that is not ready and has no task (as \<^verbatim>\<open>__init__\<close> leaves
  it, and as every reachable state that is not ready is), and ticks of which at least one
  finds the connector ready and has its task creation return a handle: \<open>i\<close> is the first
  such tick and \<open>h\<close> its handle, \<open>pre\<close> are the ticks before it (each finds the connector
  not ready, or finds it ready and has its task creation raise), \<open>post\<close> the ticks after
  it. Then tick \<open>i\<close> records \<open>h\<close> and sets \<open>ready\<close>; every later tick returns with no
  effect and no change; over the whole sequence exactly one task is created, the one with
  handle \<open>h\<close>. And whatever the ticks find, whether or not their task creations raise, and
  whatever \<^verbatim>\<open>stop\<close> calls come between them, no more than one task is ever created.
\<close>

theorem tick_launches_once:
  assumes "\<not> ready s" and "get_order_book_task s = None"
    and "\<forall>j\<in>set pre. \<not> ex_ready (connector j) \<or> (\<exists>e. spawn j = SpawnRaised e)"
    and "ex_ready (connector i)" and "spawn i = Spawned h"
  shows "snd (run_ticks s (pre @ [i])) = s\<lparr>get_order_book_task := Some h, ready := True\<rparr> \<and>
         run_ticks (snd (run_ticks s (pre @ [i]))) post = ([], snd (run_ticks s (pre @ [i]))) \<and>
         created_tasks (fst (run_ticks s (pre @ [i] @ post))) = [h] \<and>
         length (created_tasks (fst (run_calls s cs))) \<le> 1"
proof -
  have bound: "length (created_tasks (fst (run_calls s cs))) \<le> 1"
    using run_calls_budget [of s cs] by (simp split: if_splits)
  have pre: "snd (run_ticks s pre) = s" "created_tasks (fst (run_ticks s pre)) = []"
    using run_ticks_without_launch [OF assms(1,2,3)] by simp_all
  have i: "tick (spawn i) (connector i) (timestamp i) s =
      ([Notify (upper (ex_name (connector i)) @ '' Connector is ready!''), EnsureFuture h],
       s\<lparr>get_order_book_task := Some h, ready := True\<rparr>)"
    using assms(1,2,4,5) by (simp add: tick_def)
  from pre i bound show ?thesis
    by (simp add: run_ticks_append run_ticks_when_ready created_tasks_append)
qed

theorem tick_launches_once_witness:
  "\<not> ready (init [] ''BTC-USDT'' 5 :: int strategy) \<and>
   get_order_book_task (init [] ''BTC-USDT'' 5 :: int strategy) = None \<and>
   \<not> ex_ready (connector (sample_tick False (Spawned 1))) \<and>
   spawn (sample_tick True (SpawnRaised (OtherError ''boom''))) = SpawnRaised (OtherError ''boom'') \<and>
   ex_ready (connector (sample_tick True (Spawned 2))) \<and>
   spawn (sample_tick True (Spawned 2)) = Spawned 2 \<and>
   run_ticks (init [] ''BTC-USDT'' 5)
     [sample_tick False (Spawned 1), sample_tick True (SpawnRaised (OtherError ''boom'')),
      sample_tick True (Spawned 2), sample_tick True (Spawned 3)] =
     ([LogWarning ''binance is not ready. Please wait...'',
       Notify ''BINANCE Connector is ready!'', LogError ''Error starting live order book. '',
       Notify ''BINANCE Connector is ready!'', EnsureFuture 2],
      (init [] ''BTC-USDT'' 5)\<lparr>get_order_book_task := Some 2, ready := True\<rparr>)"
  using tick_launches_once
    [of "init [] ''BTC-USDT'' 5 :: int strategy"
        "[sample_tick False (Spawned 1), sample_tick True (SpawnRaised (OtherError ''boom''))]"
        "sample_tick True (Spawned 2)" 2 "[sample_tick True (Spawned 3)]" "[]"]
  by (simp add: sample_tick_def sample_exchange_def init_def tick_def upper_def upper_char_def)

text \<open>
  C1 as it is worded does not hold: two ticks that both find the connector ready, each
  with a task creation that raises, create no task and leave the strategy not ready and
  without a handle, as the \<^verbatim>\<open>except\<close> branch of \<^verbatim>\<open>tick\<close> has it.
\<close>

theorem tick_launches_once_counterexample:
  "ex_ready (connector (sample_tick True (SpawnRaised (OtherError ''boom'')))) \<and>
   run_ticks (init [] ''BTC-USDT'' 5)
     [sample_tick True (SpawnRaised (OtherError ''boom'')),
      sample_tick True (SpawnRaised (OtherError ''boom''))] =
     ([Notify ''BINANCE Connector is ready!'', LogError ''Error starting live order book. '',
       Notify ''BINANCE Connector is ready!'', LogError ''Error starting live order book. ''],
      init [] ''BTC-USDT'' 5) \<and>
   created_tasks (fst (run_ticks (init [] ''BTC-USDT'' 5)
     [sample_tick True (SpawnRaised (OtherError ''boom'')),
      sample_tick True (SpawnRaised (OtherError ''boom''))])) = [] \<and>
   \<not> ready (snd (run_ticks (init [] ''BTC-USDT'' 5)
     [sample_tick True (SpawnRaised (OtherError ''boom'')),
      sample_tick True (SpawnRaised (OtherError ''boom''))]))"
  by (simp add: sample_tick_def sample_exchange_def init_def tick_def upper_def upper_char_def)

text \<open>
  C2: over any number of ticks that find the connector not ready, from any state, the
  strategy's state (ready flag and task handle included) is the same after every tick, no
  task is created, and the effects are warnings only: one per tick while the strategy is
  not ready, none when it is.
\<close>

theorem tick_not_ready_keeps_state:
  assumes "\<forall>i\<in>set ins. \<not> ex_ready (connector i)"
  shows "snd (run_ticks s ins) = s \<and>
         fst (run_ticks s ins) =
           (if ready s then []
            else map (\<lambda>i. LogWarning (ex_name (connector i) @ '' is not ready. Please wait...'')) ins) \<and>
         created_tasks (fst (run_ticks s ins)) = []"
  using assms by (simp add: run_ticks_connector_not_ready created_tasks_warnings)

theorem tick_not_ready_keeps_state_witness:
  "\<not> ex_ready (connector (sample_tick False (Spawned 1))) \<and>
   run_ticks (init [] ''BTC-USDT'' 5) [sample_tick False (Spawned 1), sample_tick False (Spawned 2)] =
     ([LogWarning ''binance is not ready. Please wait...'',
       LogWarning ''binance is not ready. Please wait...''], init [] ''BTC-USDT'' 5)"
  using tick_not_ready_keeps_state
    [of "[sample_tick False (Spawned 1), sample_tick False (Spawned 2)]" "init [] ''BTC-USDT'' 5"]
  by (simp add: sample_tick_def sample_exchange_def init_def prod_eq_iff)

text \<open>
  C4: a strategy that is not ready and has no task ticks, finds the connector ready, and
  the task creation raises. The tick notifies that the connector is ready and logs the
  error; the state after it is the state before it (not ready, no handle). A later tick
  that finds the connector ready tries again, and records the handle when the creation
  returns one.
\<close>

theorem tick_launch_failure:
  assumes "\<not> ready s" and "get_order_book_task s = None"
    and "ex_ready exch" and "ex_ready exch'"
  shows "tick (SpawnRaised e) exch ts s =
           ([Notify (upper (ex_name exch) @ '' Connector is ready!''),
             LogError ''Error starting live order book. ''], s) \<and>
         tick (Spawned h) exch' ts' (snd (tick (SpawnRaised e) exch ts s)) =
           ([Notify (upper (ex_name exch') @ '' Connector is ready!''), EnsureFuture h],
            s\<lparr>get_order_book_task := Some h, ready := True\<rparr>)"
  using assms by (simp add: tick_def)

theorem tick_launch_failure_witness:
  "\<not> ready (init [] ''BTC-USDT'' 5 :: int strategy) \<and>
   get_order_book_task (init [] ''BTC-USDT'' 5 :: int strategy) = None \<and>
   ex_ready (sample_exchange True Map.empty) \<and>
   tick (SpawnRaised (OtherError ''boom'')) (sample_exchange True Map.empty) 1 (init [] ''BTC-USDT'' 5) =
     ([Notify ''BINANCE Connector is ready!'', LogError ''Error starting live order book. ''],
      init [] ''BTC-USDT'' 5)"
  using tick_launch_failure
    [of "init [] ''BTC-USDT'' 5 :: int strategy" "sample_exchange True Map.empty"
        "sample_exchange True Map.empty" "OtherError ''boom''" 1 3 2]
  by (simp add: sample_exchange_def init_def upper_def upper_char_def)

subsection \<open>The stop handler\<close>

text \<open>
  C8: \<^verbatim>\<open>stop\<close> with a registered task requests its cancellation and clears the handle;
  without one it changes nothing and has no effect. So a second \<^verbatim>\<open>stop\<close> in a row is a
  no-op, and two calls leave the state of one. The operation has no raising path.
\<close>

theorem stop_idempotent:
  "(get_order_book_task s = Some h \<longrightarrow>
      stop s = ([CancelTask h], s\<lparr>get_order_book_task := None\<rparr>)) \<and>
   (get_order_book_task s = None \<longrightarrow> stop s = ([], s)) \<and>
   stop (snd (stop s)) = ([], snd (stop s))"
  by (cases "get_order_book_task s") (simp_all add: stop_def)

theorem stop_idempotent_witness:
  "stop ((init [] ''BTC-USDT'' 5 :: int strategy)\<lparr>ready := True, get_order_book_task := Some 7\<rparr>)
     = ([CancelTask 7], (init [] ''BTC-USDT'' 5)\<lparr>ready := True, get_order_book_task := None\<rparr>) \<and>
   stop (init [] ''BTC-USDT'' 5 :: int strategy) = ([], init [] ''BTC-USDT'' 5)"
  using stop_idempotent [of "(init [] ''BTC-USDT'' 5 :: int strategy)\<lparr>ready := True, get_order_book_task := Some 7\<rparr>" 7]
        stop_idempotent [of "init [] ''BTC-USDT'' 5 :: int strategy" 0]
  by (simp add: init_def)

text \<open>
  C10: \<^verbatim>\<open>stop\<close> leaves the ready flag alone. From a ready state, after \<^verbatim>\<open>stop\<close>
  the strategy is still ready and has no task, and whatever calls follow, ticks (whatever
  they find) or further stops, have no effect and change nothing: no task is created
  again.
\<close>

theorem stop_keeps_ready:
  assumes "ready s"
  shows "ready (snd (stop s)) \<and> get_order_book_task (snd (stop s)) = None \<and>
         run_calls (snd (stop s)) cs = ([], snd (stop s))"
  using assms by (cases "get_order_book_task s") (simp_all add: stop_def run_calls_when_stopped)

theorem stop_keeps_ready_witness:
  "ready ((init [] ''BTC-USDT'' 5 :: int strategy)\<lparr>get_order_book_task := Some 2, ready := True\<rparr>) \<and>
   run_calls (snd (stop ((init [] ''BTC-USDT'' 5)\<lparr>get_order_book_task := Some 2, ready := True\<rparr>)))
     [Tick (sample_tick True (Spawned 3)), Stop, Tick (sample_tick True (Spawned 4))] =
     ([], (init [] ''BTC-USDT'' 5)\<lparr>get_order_book_task := None, ready := True\<rparr>)"
  using stop_keeps_ready
    [of "(init [] ''BTC-USDT'' 5 :: int strategy)\<lparr>get_order_book_task := Some 2, ready := True\<rparr>"
        "[Tick (sample_tick True (Spawned 3)), Stop, Tick (sample_tick True (Spawned 4))]"]
  by (simp add: init_def stop_def)

subsection \<open>The rendered order book\<close>

lemma split_nl_first_line:
  "newline \<notin> set a \<Longrightarrow> split_nl (a @ newline # b) = a # split_nl b"
  by (induction a) auto

lemma get_order_book_present:
  "order_books exch (trading_pair s) = Some order_book \<Longrightarrow>
   get_order_book to_string exch s =
     Inr (''  market: '' @ ex_name exch @ '' '' @ trading_pair s @ [newline] @
          join_nl (map (\<lambda>line. ''    '' @ line)
            (split_nl (to_string
               (concat_axis1 (head (lines s) (price_amount (fst order_book)))
                             (head (lines s) (price_amount (snd order_book))))))))"
  by (simp only: get_order_book_def Let_def option.case append_assoc)



text \<open>
  C9: for every snapshot of the configured pair, every \<open>lines\<close> and every rendering of
  frames, \<^verbatim>\<open>get_order_book\<close> returns a text that begins with
  \<^verbatim>\<open>"  market: <name> <pair>"\<close> and a line break, the connector's name and the pair as
  they are, and the table comes after it. When neither the name nor the pair has a line
  break in it, this is the whole first line of the text.
\<close>

theorem get_order_book_header:
  assumes "order_books exch (trading_pair s) = Some order_book"
  shows "\<exists>table. get_order_book to_string exch s =
           Inr (''  market: '' @ ex_name exch @ '' '' @ trading_pair s @ [newline] @ table) \<and>
           (newline \<notin> set (ex_name exch) \<and> newline \<notin> set (trading_pair s) \<longrightarrow>
              hd (split_nl (projr (get_order_book to_string exch s))) =
                ''  market: '' @ ex_name exch @ '' '' @ trading_pair s)"
proof -
  let ?h = "''  market: '' @ ex_name exch @ '' '' @ trading_pair s"
  let ?table = "join_nl (map (\<lambda>line. ''    '' @ line)
            (split_nl (to_string
               (concat_axis1 (head (lines s) (price_amount (fst order_book)))
                             (head (lines s) (price_amount (snd order_book)))))))"
  have eq: "get_order_book to_string exch s = Inr (?h @ newline # ?table)"
    using get_order_book_present [OF assms, of to_string] by simp
  have "hd (split_nl (?h @ newline # ?table)) = ?h"
    if "newline \<notin> set (ex_name exch)" "newline \<notin> set (trading_pair s)"
  proof -
    from that have nl: "newline \<notin> set ?h" by (simp add: newline_def)
    show ?thesis by (simp only: split_nl_first_line [OF nl] list.sel)
  qed
  with eq show ?thesis by auto
qed

theorem get_order_book_header_witness:
  "order_books (sample_exchange True [''BTC-USDT'' \<mapsto> ([level 100 1 7], [level 101 1 7])])
     (trading_pair (init [] ''BTC-USDT'' 2 :: int strategy)) =
     Some ([level 100 1 7], [level 101 1 7]) \<and>
   get_order_book (\<lambda>df. ''T'' @ [newline] @ ''U'')
     (sample_exchange True [''BTC-USDT'' \<mapsto> ([level 100 1 7], [level 101 1 7])])
     (init [] ''BTC-USDT'' 2) =
   Inr (''  market: binance BTC-USDT'' @ [newline] @ ''    T'' @ [newline] @ ''    U'')"
  using get_order_book_header
    [of "sample_exchange True [''BTC-USDT'' \<mapsto> ([level 100 1 7], [level 101 1 7])]"
        "init [] ''BTC-USDT'' 2" "([level 100 1 7], [level 101 1 7])" "\<lambda>df. ''T'' @ [newline] @ ''U''"]
  by (simp add: get_order_book_def sample_exchange_def init_def newline_def)

subsection \<open>The live refresh loop\<close>

text \<open>
  C3: when the configured pair is not in the connector's order-book mapping,
  \<^verbatim>\<open>show_order_book\<close> logs the error and raises the \<^verbatim>\<open>ValueError\<close> with the same
  message, whatever the schedule; this log line is its only effect, so there is no request
  to stop a live update, no write of the flag and no paced display.
\<close>

theorem show_order_book_invalid_market:
  assumes "order_books exch (trading_pair s) = None"
  shows "show_order_book to_string s exch sched =
           ([LogError (''Invalid market '' @ trading_pair s @ '' on '' @ ex_name exch @ '' connector.'')],
            Raised (ValueError
              (''Invalid market '' @ trading_pair s @ '' on '' @ ex_name exch @ '' connector.''))) \<and>
         filter display_call (fst (show_order_book to_string s exch sched)) = []"
  using assms by (simp add: show_order_book_def)

theorem show_order_book_invalid_market_witness:
  "order_books (sample_exchange True Map.empty) (trading_pair (init [] ''BTC-USDT'' 5 :: int strategy)) = None \<and>
   show_order_book (\<lambda>df. ''T'') (init [] ''BTC-USDT'' 5) (sample_exchange True Map.empty)
     [Resume True (sample_exchange True Map.empty)] =
     ([LogError ''Invalid market BTC-USDT on binance connector.''],
      Raised (ValueError ''Invalid market BTC-USDT on binance connector.''))"
  using show_order_book_invalid_market
    [of "sample_exchange True Map.empty" "init [] ''BTC-USDT'' 5" "\<lambda>df. ''T''"
        "[Resume True (sample_exchange True Map.empty)]"]
  by (simp add: sample_exchange_def init_def)

lemma display_loop_until_cleared:
  "\<forall>e\<in>set (e0 # running). order_books e (trading_pair s) \<noteq> None \<Longrightarrow>
   display_loop to_string s True e0 (map (Resume True) running @ Resume False e1 # later) =
     (map (\<lambda>e. paced_display (projr (get_order_book to_string e s))) (e0 # running) @
        [Notify ''Stopped live orderbook display update.''],
      Returned)"
proof (induction running arbitrary: e0)
  case Nil
  then obtain ob where "order_books e0 (trading_pair s) = Some ob" by auto
  then obtain shown where "get_order_book to_string e0 s = Inr shown"
    by (simp add: get_order_book_def Let_def)
  then show ?case by simp
next
  case (Cons e running)
  then obtain ob where "order_books e0 (trading_pair s) = Some ob" by auto
  then obtain shown where "get_order_book to_string e0 s = Inr shown"
    by (simp add: get_order_book_def Let_def)
  moreover have "display_loop to_string s True e (map (Resume True) running @ Resume False e1 # later) =
     (map (\<lambda>e. paced_display (projr (get_order_book to_string e s))) (e # running) @
        [Notify ''Stopped live orderbook display update.''],
      Returned)"
    using Cons.IH [of e] Cons.prems by simp
  ultimately show ?case by simp
qed

lemma display_loop_suspended:
  "\<forall>e\<in>set (e0 # running). order_books e (trading_pair s) \<noteq> None \<Longrightarrow>
   display_loop to_string s True e0 (map (Resume True) running) =
     (map (\<lambda>e. paced_display (projr (get_order_book to_string e s))) (e0 # running), Suspended)"
proof (induction running arbitrary: e0)
  case Nil
  then obtain ob where "order_books e0 (trading_pair s) = Some ob" by auto
  then obtain shown where "get_order_book to_string e0 s = Inr shown"
    by (simp add: get_order_book_def Let_def)
  then show ?case by simp
next
  case (Cons e running)
  then obtain ob where "order_books e0 (trading_pair s) = Some ob" by auto
  then obtain shown where "get_order_book to_string e0 s = Inr shown"
    by (simp add: get_order_book_def Let_def)
  moreover have "display_loop to_string s True e (map (Resume True) running) =
     (map (\<lambda>e. paced_display (projr (get_order_book to_string e s))) (e # running), Suspended)"
    using Cons.IH [of e] Cons.prems by simp
  ultimately show ?case by simp
qed

text \<open>
  C5: a run of \<^verbatim>\<open>show_order_book\<close> for a known pair that has set the flag and has
  gone through the paced displays of the connector states \<open>e0 # running\<close>, finding the
  flag on after each but the last; it is suspended in the last of them (first equation).
  An external actor clears the flag during that display. When the task resumes and finds
  the flag cleared (second equation), the events are those up to the suspension followed
  by the notice that live updates stopped, and the task has returned: no display is
  started after the clearing, nothing is raised, and what the schedule holds
  after the clearing is never reached.
\<close>

theorem show_order_book_graceful_stop:
  assumes "order_books exch (trading_pair s) \<noteq> None"
    and "\<forall>e\<in>set (e0 # running). order_books e (trading_pair s) \<noteq> None"
  shows "show_order_book to_string s exch (Resume b0 e0 # map (Resume True) running) =
           (StopLiveUpdate # SetLiveUpdates True #
              map (\<lambda>e. paced_display (projr (get_order_book to_string e s))) (e0 # running),
            Suspended) \<and>
         show_order_book to_string s exch
           (Resume b0 e0 # map (Resume True) running @ Resume False e1 # later) =
           (StopLiveUpdate # SetLiveUpdates True #
              map (\<lambda>e. paced_display (projr (get_order_book to_string e s))) (e0 # running) @
              [Notify ''Stopped live orderbook display update.''],
            Returned)"
  using assms(1) display_loop_until_cleared [OF assms(2), of to_string e1 later]
    display_loop_suspended [OF assms(2), of to_string]
  by (simp add: show_order_book_def del: display_loop.simps)

theorem show_order_book_graceful_stop_witness:
  "order_books (sample_exchange True [''BTC-USDT'' \<mapsto> ([level 100 1 7], [level 101 1 7])])
     (trading_pair (init [] ''BTC-USDT'' 2 :: int strategy)) \<noteq> None \<and>
   show_order_book (\<lambda>df. ''T'') (init [] ''BTC-USDT'' 2)
     (sample_exchange True [''BTC-USDT'' \<mapsto> ([level 100 1 7], [level 101 1 7])])
     [Resume False (sample_exchange True [''BTC-USDT'' \<mapsto> ([level 100 1 7], [level 101 1 7])]),
      Resume True (sample_exchange True [''BTC-USDT'' \<mapsto> ([level 100 1 7], [level 101 1 7])]),
      Resume False (sample_exchange True Map.empty),
      Cancel] =
     ([StopLiveUpdate, SetLiveUpdates True,
       paced_display (''  market: binance BTC-USDT'' @ [newline] @ ''    T''),
       paced_display (''  market: binance BTC-USDT'' @ [newline] @ ''    T''),
       Notify ''Stopped live orderbook display update.''],
      Returned)"
  using show_order_book_graceful_stop
    [of "sample_exchange True [''BTC-USDT'' \<mapsto> ([level 100 1 7], [level 101 1 7])]"
        "init [] ''BTC-USDT'' 2"
        "sample_exchange True [''BTC-USDT'' \<mapsto> ([level 100 1 7], [level 101 1 7])]"
        "[sample_exchange True [''BTC-USDT'' \<mapsto> ([level 100 1 7], [level 101 1 7])]]"
        "\<lambda>df. ''T''" False "sample_exchange True Map.empty" "[Cancel]"]
  by (simp add: sample_exchange_def init_def get_order_book_def newline_def)

subsection \<open>The status report\<close>

lemma format_status_not_ready:
  "\<not> ready s \<Longrightarrow> format_status str_of attrs s = Inr ''Exchange connector(s) are not ready.''"
  by (simp add: format_status_def)

lemma format_status_bound_attributes:
  "ready s \<Longrightarrow>
   format_status str_of \<lparr>attr_market_infos = Some [(k, mi)], attr_asset = Some a\<rparr> s =
     Inr (join_nl [[], ''  Assets:'', ''    '' @ a @ ''    '' @ str_of (get_balance (market mi) a)])"
  by (simp add: format_status_def)

text \<open>
  C7 (the ready path of \<^verbatim>\<open>format_status\<close>): on the object that \<^verbatim>\<open>__init__\<close>
  builds, whatever its arguments, once a tick has made it ready and recorded a task,
  \<^verbatim>\<open>format_status\<close> raises \<^verbatim>\<open>AttributeError\<close> at its first read of
  \<^verbatim>\<open>self._market_infos\<close> and returns no asset and balance lines: the constructor stores
  the markets as \<^verbatim>\<open>_market_info\<close>, and \<^verbatim>\<open>_asset\<close> is not assigned either. With
  both attributes bound the lines are returned (\<open>format_status_bound_attributes\<close>), and
  a strategy that is not ready gets the not-ready message (\<open>format_status_not_ready\<close>).
\<close>

theorem format_status_raises_when_ready:
  "format_status str_of attributes_after_init
     ((init mi tp n)\<lparr>get_order_book_task := Some h, ready := True\<rparr>) =
   Inl (AttributeError ''_market_infos'')"
  by (simp add: format_status_def attributes_after_init_def init_def)

end
